theory Spec2Isabelle
  imports Complex_Main
begin

section \<open>Numbers, errors and calendar dates\<close>

text \<open>
  The asset store of the life-plan manager (class \<open>AssetStore\<close>) is embedded function
  by function. JavaScript numbers are modelled as real numbers with exact arithmetic:
  NaN, the infinities and the rounding error of binary floating point are outside the
  model. Counters and calendar years are integers.

  \<open>Math.round\<close> rounds to the nearest integer, a tie towards plus infinity.
\<close>

definition math_round :: "real \<Rightarrow> real" where
  "math_round x = of_int \<lfloor>x + 1 / 2\<rfloor>"

text \<open>
  The exceptions the embedded code can raise: destructuring a property of
  \<open>undefined\<close> raises a TypeError, and \<open>toISOString\<close> of an invalid date raises a
  RangeError.
\<close>

datatype error = TypeError | RangeError

text \<open>
  A calendar date as the string \<open>YYYY-MM-DD\<close> carries it: the month counts from 1.
\<close>

record iso_date =
  d_year :: int
  d_month :: int
  d_day :: int

text \<open>
  The local time zone of the device is a parameter \<open>tz\<close> of the model: the minutes local
  time is ahead of UTC (540 in Tokyo, -300 in New York), taken constant and strictly
  between minus and plus one day.

  \<open>new Date(s).getFullYear()\<close> for a date-only string \<open>s\<close>: the string denotes
  midnight UTC, and the year is read in local time, which west of Greenwich is still the
  day before.
\<close>

definition js_getFullYear :: "int \<Rightarrow> iso_date \<Rightarrow> int" where
  "js_getFullYear tz d =
     (if tz < 0 \<and> d_month d = 1 \<and> d_day d = 1 then d_year d - 1 else d_year d)"

definition isLeapYear :: "int \<Rightarrow> bool" where
  "isLeapYear y \<longleftrightarrow> y mod 4 = 0 \<and> (y mod 100 \<noteq> 0 \<or> y mod 400 = 0)"

definition daysInMonth :: "int \<Rightarrow> int \<Rightarrow> int" where
  "daysInMonth y m =
     (if m = 2 then (if isLeapYear y then 29 else 28)
      else if m = 4 \<or> m = 6 \<or> m = 9 \<or> m = 11 then 30
      else 31)"

text \<open>
  \<open>new Date(year, month, 1).toISOString().split("T")[0]\<close>. The constructor reads its
  arguments in local time: a year from 0 to 99 means 1900 + year, and a month outside
  0..11 carries into the year. \<open>toISOString\<close> prints the instant in UTC, so east of
  Greenwich local midnight of the 1st is still the last day of the month before. Time
  values reach from -271821-04-20 to 275760-09-13; outside, the date is invalid and
  \<open>toISOString\<close> raises.
\<close>

definition js_firstOfMonth_isoDate :: "int \<Rightarrow> int \<Rightarrow> int \<Rightarrow> error + iso_date" where
  "js_firstOfMonth_isoDate tz y m =
     (let yr = (if 0 \<le> y \<and> y \<le> 99 then 1900 + y else y);
          ym = yr + m div 12;
          mn = m mod 12
      in if \<not> ((- 271821 < ym \<or> (ym = - 271821 \<and> 4 \<le> mn)) \<and>
                (ym < 275760 \<or> (ym = 275760 \<and> mn \<le> 8)))
         then Inl RangeError
         else if 0 < tz then
           (if mn = 0 then Inr \<lparr>d_year = ym - 1, d_month = 12, d_day = 31\<rparr>
            else Inr \<lparr>d_year = ym, d_month = mn, d_day = daysInMonth ym mn\<rparr>)
         else Inr \<lparr>d_year = ym, d_month = mn + 1, d_day = 1\<rparr>)"

section \<open>Data model\<close>

record capital_gain_config =
  annualRate :: real
  compoundingFrequency :: string

record income_gain_config =
  dividendYield :: real
  paymentFrequency :: string
  reinvestDividends :: bool

text \<open>
  \<open>returns\<close>: the capital-gain settings are always there, the income-gain settings
  may be missing (\<open>None\<close> is the property being \<open>undefined\<close>).
\<close>

record return_model =
  capitalGain :: capital_gain_config
  incomeGain :: "income_gain_config option"

text \<open>
  The result of \<open>calculateCapitalGain\<close>. Its property \<open>capitalGain\<close> is the field
  \<open>capitalGainAmount\<close> here, the name \<open>capitalGain\<close> being taken by the return model.
\<close>

record capital_gain_result =
  evaluationAmount :: real
  capitalGainAmount :: real

record dividend_payment =
  date :: iso_date
  amount :: real

text \<open>
  One projected year. The four \<open>actual\<close> fields are absent (\<open>None\<close>) until the
  reconciliation sets them.
\<close>

record yearly_performance =
  year :: int
  startValue :: real
  endValue :: real
  capitalGains :: real
  dividends :: "dividend_payment list"
  totalDividends :: real
  actualEndValue :: "real option"
  actualCapitalGains :: "real option"
  actualDividends :: "dividend_payment list option"
  actualTotalDividends :: "real option"

section \<open>Compounding and dividends\<close>

text \<open>
  \<open>calculateCapitalGain(initialAmount, annualRate, compoundingFrequency)\<close>: the
  \<open>switch\<close> has the cases "daily" and "monthly"; "yearly" shares the \<open>default\<close>
  branch.
\<close>

definition calculateCapitalGain :: "real \<Rightarrow> real \<Rightarrow> string \<Rightarrow> capital_gain_result" where
  "calculateCapitalGain amt rate freq =
     (let (periods, r) =
            (if freq = ''daily'' then (365 :: nat, rate / 365)
             else if freq = ''monthly'' then (12, rate / 12)
             else (1, rate));
          finalAmount = amt * (1 + r) ^ periods
      in \<lparr>evaluationAmount = finalAmount, capitalGainAmount = finalAmount - amt\<rparr>)"

text \<open>
  \<open>calculateDividends(amount, dividendYield, paymentFrequency, year)\<close>. Its
  \<open>switch\<close> sets \<open>paymentsPerYear\<close>: 12 for "monthly", 4 for "quarterly", and 1 in
  the \<open>default\<close> branch, which "yearly" shares. The loop
  \<open>for (i = 0; i < paymentsPerYear; i++)\<close> pushes one payment per round.
\<close>

definition paymentsPerYear :: "string \<Rightarrow> nat" where
  "paymentsPerYear freq =
     (if freq = ''monthly'' then 12 else if freq = ''quarterly'' then 4 else 1)"

function calculateDividends_loop ::
  "int \<Rightarrow> int \<Rightarrow> real \<Rightarrow> nat \<Rightarrow> nat \<Rightarrow> dividend_payment list \<Rightarrow> error + dividend_payment list" where
  "calculateDividends_loop tz y dividendPerPayment n i divs =
     (if i < n then
        (case js_firstOfMonth_isoDate tz y \<lfloor>(12 / real n) * real i\<rfloor> of
           Inl e \<Rightarrow> Inl e
         | Inr d \<Rightarrow>
             calculateDividends_loop tz y dividendPerPayment n (Suc i)
               (divs @ [\<lparr>date = d, amount = math_round dividendPerPayment\<rparr>]))
      else Inr divs)"
  by pat_completeness auto
termination
  by (relation "measure (\<lambda>(tz, y, dpp, n, i, divs). n - i)") auto

definition calculateDividends ::
  "int \<Rightarrow> real \<Rightarrow> real \<Rightarrow> string \<Rightarrow> int \<Rightarrow> error + dividend_payment list" where
  "calculateDividends tz amt yld freq y =
     (let dividendPerPayment = (amt * yld) / real (paymentsPerYear freq)
      in calculateDividends_loop tz y dividendPerPayment (paymentsPerYear freq) 0 [])"

section \<open>Projection of one year and of the lifetime\<close>

text \<open>
  \<open>calculateYearPerformance(year, startValue, returns)\<close> opens with the
  destructuring
  \<^verbatim>\<open>const { capitalGain: {...}, incomeGain: { dividendYield, paymentFrequency, reinvestDividends } } = returns\<close>
  which raises a TypeError when \<open>returns.incomeGain\<close> is undefined. The total of the
  dividends is \<open>dividends.reduce((sum, div) => sum + div.amount, 0)\<close>.
\<close>

definition sumDividendAmounts :: "dividend_payment list \<Rightarrow> real" where
  "sumDividendAmounts divs = foldl (\<lambda>sum dv. sum + amount dv) 0 divs"

definition calculateYearPerformance ::
  "int \<Rightarrow> int \<Rightarrow> real \<Rightarrow> return_model \<Rightarrow> error + yearly_performance" where
  "calculateYearPerformance tz y sv rets =
     (case incomeGain rets of
        None \<Rightarrow> Inl TypeError
      | Some ig \<Rightarrow>
          (let capitalGainResult =
                 calculateCapitalGain sv (annualRate (capitalGain rets))
                   (compoundingFrequency (capitalGain rets))
           in case calculateDividends tz sv (dividendYield ig) (paymentFrequency ig) y of
                Inl e \<Rightarrow> Inl e
              | Inr divs \<Rightarrow>
                  (let total = sumDividendAmounts divs;
                       ev = (if reinvestDividends ig
                             then evaluationAmount capitalGainResult + total
                             else evaluationAmount capitalGainResult)
                   in Inr \<lparr>year = y,
                           startValue = math_round sv,
                           endValue = math_round ev,
                           capitalGains = math_round (capitalGainAmount capitalGainResult),
                           dividends = divs,
                           totalDividends = math_round total,
                           actualEndValue = None,
                           actualCapitalGains = None,
                           actualDividends = None,
                           actualTotalDividends = None\<rparr>)))"

text \<open>
  \<open>initializeYearlyPerformance(startDate, maturityDate, initialAmount, returns)\<close>: the
  loop \<open>for (year = startYear; year <= endYear; year++)\<close> carries the running amount
  and the records pushed so far. A maturity date that is null or undefined is
  \<open>None\<close>.
\<close>

function initializeYearlyPerformance_loop ::
  "int \<Rightarrow> return_model \<Rightarrow> int \<Rightarrow> int \<Rightarrow> real \<Rightarrow> yearly_performance list
     \<Rightarrow> error + yearly_performance list" where
  "initializeYearlyPerformance_loop tz rets endYear y currentAmount perf =
     (if y \<le> endYear then
        (case calculateYearPerformance tz y currentAmount rets of
           Inl e \<Rightarrow> Inl e
         | Inr p \<Rightarrow>
             initializeYearlyPerformance_loop tz rets endYear (y + 1) (endValue p) (perf @ [p]))
      else Inr perf)"
  by pat_completeness auto
termination
  by (relation "measure (\<lambda>(tz, rets, endYear, y, cur, perf). nat (endYear + 1 - y))") auto

definition initializeYearlyPerformance ::
  "int \<Rightarrow> iso_date \<Rightarrow> iso_date option \<Rightarrow> real \<Rightarrow> return_model
     \<Rightarrow> error + yearly_performance list" where
  "initializeYearlyPerformance tz sd md amt rets =
     (let startYear = js_getFullYear tz sd;
          endYear = (case md of Some m \<Rightarrow> js_getFullYear tz m | None \<Rightarrow> startYear + 50)
      in initializeYearlyPerformance_loop tz rets endYear startYear amt [])"

section \<open>The asset store\<close>

text \<open>An asset; \<open>asset_id\<close> is its property \<open>id\<close>.\<close>

record asset =
  asset_id :: string
  name :: string
  initialAmount :: real
  category :: string
  startDate :: iso_date
  maturityDate :: "iso_date option"
  returns :: return_model
  yearlyPerformance :: "yearly_performance list"

text \<open>\<open>this.assets\<close>, a Map from ids to assets.\<close>

type_synonym asset_store = "string \<rightharpoonup> asset"

text \<open>The payload of \<open>createAsset\<close>.\<close>

record asset_input =
  in_name :: string
  in_initialAmount :: real
  in_category :: string
  in_startDate :: iso_date
  in_maturityDate :: "iso_date option"
  in_returns :: return_model

text \<open>
  \<open>createAsset(data)\<close>; the id that \<open>nanoid()\<close> draws is the parameter \<open>newId\<close>.
  An exception of the projection leaves the store as it was (\<open>Inl\<close>).
\<close>

definition createAsset ::
  "int \<Rightarrow> asset_store \<Rightarrow> string \<Rightarrow> asset_input \<Rightarrow> error + (string \<times> asset_store)" where
  "createAsset tz store newId data =
     (case initializeYearlyPerformance tz (in_startDate data) (in_maturityDate data)
             (in_initialAmount data) (in_returns data) of
        Inl e \<Rightarrow> Inl e
      | Inr perf \<Rightarrow>
          Inr (newId,
               store(newId \<mapsto>
                 \<lparr>asset_id = newId, name = in_name data,
                  initialAmount = in_initialAmount data, category = in_category data,
                  startDate = in_startDate data, maturityDate = in_maturityDate data,
                  returns = in_returns data, yearlyPerformance = perf\<rparr>)))"

text \<open>
  The payload of \<open>updateAsset\<close>: every key of an asset may be present or not
  (\<open>None\<close>: the key is missing). The maturity date is the optional field, so its key
  may also be present with the value \<open>undefined\<close> or \<open>null\<close>; the spread
  \<open>{...asset, ...data}\<close> copies either, and only \<open>null\<close> differs from
  \<open>undefined\<close> in the test \<open>data.maturityDate !== undefined\<close>.
\<close>

datatype maturity_patch = KeyAbsent | SetUndefined | SetNull | SetDate iso_date

record asset_patch =
  p_id :: "string option"
  p_name :: "string option"
  p_initialAmount :: "real option"
  p_category :: "string option"
  p_startDate :: "iso_date option"
  p_maturityDate :: maturity_patch
  p_returns :: "return_model option"
  p_yearlyPerformance :: "yearly_performance list option"

definition merge_field :: "'a \<Rightarrow> 'a option \<Rightarrow> 'a" where
  "merge_field old new = (case new of None \<Rightarrow> old | Some v \<Rightarrow> v)"

text \<open>\<open>{...asset, ...data}\<close>\<close>

definition merge_asset :: "asset \<Rightarrow> asset_patch \<Rightarrow> asset" where
  "merge_asset a data =
     \<lparr>asset_id = merge_field (asset_id a) (p_id data),
      name = merge_field (name a) (p_name data),
      initialAmount = merge_field (initialAmount a) (p_initialAmount data),
      category = merge_field (category a) (p_category data),
      startDate = merge_field (startDate a) (p_startDate data),
      maturityDate =
        (case p_maturityDate data of
           KeyAbsent \<Rightarrow> maturityDate a
         | SetUndefined \<Rightarrow> None
         | SetNull \<Rightarrow> None
         | SetDate d \<Rightarrow> Some d),
      returns = merge_field (returns a) (p_returns data),
      yearlyPerformance = merge_field (yearlyPerformance a) (p_yearlyPerformance data)\<rparr>"

text \<open>
  The test of \<open>updateAsset\<close> that decides on a new projection:
  \<^verbatim>\<open>data.initialAmount !== undefined || data.returns !== undefined ||
  data.startDate !== undefined || data.maturityDate !== undefined\<close>
\<close>

definition affects_valuation :: "asset_patch \<Rightarrow> bool" where
  "affects_valuation data \<longleftrightarrow>
     p_initialAmount data \<noteq> None \<or> p_returns data \<noteq> None \<or> p_startDate data \<noteq> None \<or>
     (case p_maturityDate data of
        KeyAbsent \<Rightarrow> False | SetUndefined \<Rightarrow> False | SetNull \<Rightarrow> True | SetDate d \<Rightarrow> True)"

text \<open>
  \<open>updateAsset(id, data)\<close>. An unknown id changes nothing. An exception of the
  projection leaves before \<open>this.assets.set\<close>, so the store stays as it was
  (\<open>Inl\<close>).
\<close>

definition updateAsset ::
  "int \<Rightarrow> asset_store \<Rightarrow> string \<Rightarrow> asset_patch \<Rightarrow> error + asset_store" where
  "updateAsset tz store i data =
     (case store i of
        None \<Rightarrow> Inr store
      | Some a \<Rightarrow>
          (let updatedAsset = merge_asset a data
           in if affects_valuation data then
                (case initializeYearlyPerformance tz (startDate updatedAsset)
                        (maturityDate updatedAsset) (initialAmount updatedAsset)
                        (returns updatedAsset) of
                   Inl e \<Rightarrow> Inl e
                 | Inr perf \<Rightarrow> Inr (store(i \<mapsto> updatedAsset\<lparr>yearlyPerformance := perf\<rparr>)))
              else Inr (store(i \<mapsto> updatedAsset))))"

section \<open>Reconciliation with actual results\<close>

text \<open>\<open>Array.prototype.findIndex\<close>: the first index whose element passes, or -1.\<close>

fun findIndex_from :: "('a \<Rightarrow> bool) \<Rightarrow> 'a list \<Rightarrow> int \<Rightarrow> int" where
  "findIndex_from P [] i = - 1"
| "findIndex_from P (x # xs) i = (if P x then i else findIndex_from P xs (i + 1))"

definition findIndex :: "('a \<Rightarrow> bool) \<Rightarrow> 'a list \<Rightarrow> int" where
  "findIndex P xs = findIndex_from P xs 0"

text \<open>
  The payload \<open>actualData\<close>; a key it lacks reads as \<open>undefined\<close> (\<open>None\<close>),
  and that is what the record then holds.
\<close>

record actual_data =
  ad_endValue :: "real option"
  ad_capitalGains :: "real option"
  ad_dividends :: "dividend_payment list option"
  ad_totalDividends :: "real option"

definition updateActualPerformance ::
  "asset_store \<Rightarrow> string \<Rightarrow> int \<Rightarrow> actual_data \<Rightarrow> asset_store" where
  "updateActualPerformance store i y actualData =
     (case store i of
        None \<Rightarrow> store
      | Some a \<Rightarrow>
          (let performanceIndex = findIndex (\<lambda>p. year p = y) (yearlyPerformance a)
           in if performanceIndex \<noteq> - 1 then
                store(i \<mapsto> a\<lparr>yearlyPerformance :=
                  (yearlyPerformance a)[nat performanceIndex :=
                    (yearlyPerformance a ! nat performanceIndex)
                      \<lparr>actualEndValue := ad_endValue actualData,
                       actualCapitalGains := ad_capitalGains actualData,
                       actualDividends := ad_dividends actualData,
                       actualTotalDividends := ad_totalDividends actualData\<rparr>]\<rparr>)
              else store))"

section \<open>Monte Carlo simulation\<close>

text \<open>
  \<open>Math.random()\<close> is a source of draws from the interval from 0 (included) to 1
  (excluded): the sequence \<open>rnd\<close> of the values it will return, and the number
  \<open>k\<close> of draws made so far.

  \<open>while (u === 0) u = Math.random();\<close> draws until a value is not zero. A source
  of zeros only keeps it running for ever: the result is then \<open>None\<close>.
\<close>

partial_function (option) drawNonzero :: "(nat \<Rightarrow> real) \<Rightarrow> real \<Rightarrow> nat \<Rightarrow> (real \<times> nat) option" where
  "drawNonzero rnd u k = (if u = 0 then drawNonzero rnd (rnd k) (Suc k) else Some (u, k))"

text \<open>\<open>normalRandom()\<close>, the Box-Muller transform of two such draws.\<close>

definition normalRandom :: "(nat \<Rightarrow> real) \<Rightarrow> nat \<Rightarrow> (real \<times> nat) option" where
  "normalRandom rnd k =
     (case drawNonzero rnd 0 k of
        None \<Rightarrow> None
      | Some (u, k1) \<Rightarrow>
          (case drawNonzero rnd 0 k1 of
             None \<Rightarrow> None
           | Some (v, k2) \<Rightarrow> Some (sqrt (- 2 * ln u) * cos (2 * pi * v), k2)))"

text \<open>
  \<open>getPercentile(sortedArray, percentile)\<close>: reading an array at an index that is
  not one of its positions gives \<open>undefined\<close> (\<open>None\<close>); nothing clamps the index.
\<close>

definition percentileIndex :: "nat \<Rightarrow> real \<Rightarrow> int" where
  "percentileIndex len percentile = \<lfloor>real len * percentile\<rfloor>"

definition getPercentile :: "real list \<Rightarrow> real \<Rightarrow> real option" where
  "getPercentile sortedArray percentile =
     (let index = percentileIndex (length sortedArray) percentile
      in if 0 \<le> index \<and> index < int (length sortedArray)
         then Some (sortedArray ! nat index) else None)"

record simulation_result =
  bestCase :: "real option"
  expected :: "real option"
  worstCase :: "real option"
  paths :: "real list list"

text \<open>The inner loop \<open>for (year = 1; year <= years; year++)\<close> of one path.\<close>

function simulatePath ::
  "(nat \<Rightarrow> real) \<Rightarrow> real \<Rightarrow> real \<Rightarrow> int \<Rightarrow> int \<Rightarrow> real \<Rightarrow> real list \<Rightarrow> nat
     \<Rightarrow> (real list \<times> nat) option" where
  "simulatePath rnd rate volatility years y val path k =
     (if y \<le> years then
        (case normalRandom rnd k of
           None \<Rightarrow> None
         | Some (z, k') \<Rightarrow>
             (let randomReturn = exp (rate - 0.5 * volatility * volatility + volatility * z) - 1;
                  val' = val * (1 + randomReturn)
              in simulatePath rnd rate volatility years (y + 1) val' (path @ [val']) k'))
      else Some (path, k))"
  by pat_completeness auto
termination
  by (relation "measure (\<lambda>(rnd, rate, vol, years, y, val, path, k). nat (years + 1 - y))") auto

text \<open>The outer loop \<open>for (i = 0; i < iterations; i++)\<close>.\<close>

function simulatePaths ::
  "(nat \<Rightarrow> real) \<Rightarrow> real \<Rightarrow> real \<Rightarrow> real \<Rightarrow> int \<Rightarrow> int \<Rightarrow> int \<Rightarrow> real list list \<Rightarrow> nat
     \<Rightarrow> (real list list \<times> nat) option" where
  "simulatePaths rnd amt rate volatility years iterations i results k =
     (if i < iterations then
        (case simulatePath rnd rate volatility years 1 amt [amt] k of
           None \<Rightarrow> None
         | Some (path, k') \<Rightarrow>
             simulatePaths rnd amt rate volatility years iterations (i + 1) (results @ [path]) k')
      else Some (results, k))"
  by pat_completeness auto
termination
  by (relation "measure (\<lambda>(rnd, amt, rate, vol, years, iterations, i, results, k).
        nat (iterations - i))") auto

text \<open>
  \<open>runMonteCarloSimulation(assetId, years, iterations = 1000)\<close>: a missing third
  argument (\<open>None\<close>) is 1000. The result is \<open>null\<close> (\<open>None\<close>) or a simulation
  result, together with the store, which the method only reads, and the number of draws
  made. Every path starts with the principal, so its last element exists. The
  comparator \<open>(a, b) => a - b\<close> sorts the final values in ascending order.
\<close>

definition runMonteCarloSimulation ::
  "asset_store \<Rightarrow> (nat \<Rightarrow> real) \<Rightarrow> nat \<Rightarrow> string \<Rightarrow> int \<Rightarrow> int option
     \<Rightarrow> (simulation_result option \<times> asset_store \<times> nat) option" where
  "runMonteCarloSimulation store rnd k assetId years iterations_arg =
     (let iterations = (case iterations_arg of None \<Rightarrow> 1000 | Some n \<Rightarrow> n)
      in case store assetId of
           None \<Rightarrow> Some (None, store, k)
         | Some a \<Rightarrow>
             (case simulatePaths rnd (initialAmount a) (annualRate (capitalGain (returns a)))
                     0.15 years iterations 0 [] k of
                None \<Rightarrow> None
              | Some (results, k') \<Rightarrow>
                  (let finalValues = sort (map last results)
                   in Some (Some \<lparr>bestCase = getPercentile finalValues 0.95,
                                   expected = getPercentile finalValues 0.5,
                                   worstCase = getPercentile finalValues 0.05,
                                   paths = results\<rparr>,
                            store, k'))))"

section \<open>Auxiliary notions for the properties\<close>

text \<open>
  A sequence of yearly records is chained from a value \<open>s\<close> when its first record starts
  at \<open>s\<close> and every later record starts where the one before ends.
\<close>

fun chain_from :: "real \<Rightarrow> yearly_performance list \<Rightarrow> bool" where
  "chain_from s [] = True"
| "chain_from s (p # ps) = (startValue p = s \<and> chain_from (endValue p) ps)"

text \<open>
  A return model for the examples: 4 percent a year compounded yearly, a dividend yield of
  2 percent paid once a year and reinvested.
\<close>

abbreviation rets_example :: return_model where
  "rets_example \<equiv>
     \<lparr>capitalGain = \<lparr>annualRate = 0.04, compoundingFrequency = ''yearly''\<rparr>,
      incomeGain = Some \<lparr>dividendYield = 0.02, paymentFrequency = ''yearly'',
                         reinvestDividends = True\<rparr>\<rparr>"

text \<open>
  An asset as \<open>createAsset\<close> stores it where local time is UTC: 1000 invested from
  2024-01-01 to 2025-06-30 under the return model above, with its two projected years.
\<close>

abbreviation perf_example :: "yearly_performance list" where
  "perf_example \<equiv>
     [\<lparr>year = 2024, startValue = 1000, endValue = 1060, capitalGains = 40,
       dividends = [\<lparr>date = \<lparr>d_year = 2024, d_month = 1, d_day = 1\<rparr>, amount = 20\<rparr>],
       totalDividends = 20, actualEndValue = None, actualCapitalGains = None,
       actualDividends = None, actualTotalDividends = None\<rparr>,
      \<lparr>year = 2025, startValue = 1060, endValue = 1123, capitalGains = 42,
       dividends = [\<lparr>date = \<lparr>d_year = 2025, d_month = 1, d_day = 1\<rparr>, amount = 21\<rparr>],
       totalDividends = 21, actualEndValue = None, actualCapitalGains = None,
       actualDividends = None, actualTotalDividends = None\<rparr>]"

abbreviation asset_example :: asset where
  "asset_example \<equiv>
     \<lparr>asset_id = ''a1'', name = ''fund'', initialAmount = 1000, category = ''stocks'',
      startDate = \<lparr>d_year = 2024, d_month = 1, d_day = 1\<rparr>,
      maturityDate = Some \<lparr>d_year = 2025, d_month = 6, d_day = 30\<rparr>,
      returns = rets_example, yearlyPerformance = perf_example\<rparr>"

text \<open>A payload of \<open>updateAsset\<close> with no key at all.\<close>

abbreviation empty_patch :: asset_patch where
  "empty_patch \<equiv>
     \<lparr>p_id = None, p_name = None, p_initialAmount = None, p_category = None,
      p_startDate = None, p_maturityDate = KeyAbsent, p_returns = None,
      p_yearlyPerformance = None\<rparr>"

section \<open>Rounding to whole units\<close>

lemma math_round_of_int: "math_round (of_int n) = of_int n"
  by (simp add: math_round_def)

lemma math_round_idem: "math_round (math_round x) = math_round x"
  unfolding math_round_def[of x] by (rule math_round_of_int)

lemma math_round_add_of_int: "math_round (x + of_int n) = math_round x + of_int n"
proof -
  have "x + of_int n + 1 / 2 = (x + 1 / 2) + of_int n" by simp
  then have "\<lfloor>x + of_int n + 1 / 2\<rfloor> = \<lfloor>x + 1 / 2\<rfloor> + n"
    by (simp only: floor_add_int)
  then show ?thesis by (simp add: math_round_def)
qed

section \<open>Properties of the compounding calculator\<close>

text \<open>
  Claim C3. \<open>calculateCapitalGain\<close> returns the evaluation amount
  \<open>startValue * (1 + r) ^ n\<close> and the capital gain \<open>evaluationAmount - startValue\<close>,
  unrounded, with 365 periods at a 365th of the annual rate for "daily", 12 periods at a
  twelfth for "monthly", and one period at the annual rate for "yearly" and for every
  other value of the frequency. For 1000 at 12 percent compounded monthly the evaluation
  amount is 1126.83 and the gain 126.83, to the cent.
\<close>

theorem calculateCapitalGain_compounding:
  "calculateCapitalGain sv ar ''daily'' =
     \<lparr>evaluationAmount = sv * (1 + ar / 365) ^ 365,
      capitalGainAmount = sv * (1 + ar / 365) ^ 365 - sv\<rparr>
   \<and> calculateCapitalGain sv ar ''monthly'' =
     \<lparr>evaluationAmount = sv * (1 + ar / 12) ^ 12,
      capitalGainAmount = sv * (1 + ar / 12) ^ 12 - sv\<rparr>
   \<and> calculateCapitalGain sv ar ''yearly'' =
     \<lparr>evaluationAmount = sv * (1 + ar) ^ 1, capitalGainAmount = sv * (1 + ar) ^ 1 - sv\<rparr>
   \<and> (freq \<noteq> ''daily'' \<and> freq \<noteq> ''monthly'' \<longrightarrow>
        calculateCapitalGain sv ar freq =
          \<lparr>evaluationAmount = sv * (1 + ar) ^ 1, capitalGainAmount = sv * (1 + ar) ^ 1 - sv\<rparr>)
   \<and> \<bar>evaluationAmount (calculateCapitalGain 1000 0.12 ''monthly'') - 1126.83\<bar> < 0.005
   \<and> \<bar>capitalGainAmount (calculateCapitalGain 1000 0.12 ''monthly'') - 126.83\<bar> < 0.005"
  by (simp add: calculateCapitalGain_def Let_def power_divide)

theorem calculateCapitalGain_compounding_witness:
  "calculateCapitalGain 1000 0.05 ''weekly'' =
     \<lparr>evaluationAmount = 1050, capitalGainAmount = 50\<rparr>"
  using calculateCapitalGain_compounding [of 1000 "0.05" "''weekly''"] by simp

section \<open>Properties of the dividend scheduler\<close>

lemma calculateDividends_loop_amounts:
  "calculateDividends_loop tz y dpp n i divs = Inr res \<Longrightarrow>
     \<exists>rest. res = divs @ rest \<and> length rest = n - i \<and> (\<forall>d \<in> set rest. amount d = math_round dpp)"
proof (induction tz y dpp n i divs rule: calculateDividends_loop.induct)
  case (1 tz y dpp n i divs)
  show ?case
  proof (cases "i < n")
    case False
    with "1.prems" show ?thesis by simp
  next
    case True
    with "1.prems" obtain d where
      d: "js_firstOfMonth_isoDate tz y \<lfloor>(12 / real n) * real i\<rfloor> = Inr d"
      and rec: "calculateDividends_loop tz y dpp n (Suc i)
                  (divs @ [\<lparr>date = d, amount = math_round dpp\<rparr>]) = Inr res"
      by (auto split: sum.splits)
    from "1.IH" [OF True d rec] obtain rest where
      "res = (divs @ [\<lparr>date = d, amount = math_round dpp\<rparr>]) @ rest"
      "length rest = n - Suc i" "\<forall>d \<in> set rest. amount d = math_round dpp"
      by blast
    with True show ?thesis
      by (intro exI [of _ "\<lparr>date = d, amount = math_round dpp\<rparr> # rest"]) auto
  qed
qed

lemma foldl_amounts_const:
  "(\<forall>d \<in> set ds. amount d = c) \<Longrightarrow>
     foldl (\<lambda>sum dv. sum + amount dv) a ds = a + real (length ds) * c"
  by (induction ds arbitrary: a) (auto simp: algebra_simps)

text \<open>
  Whenever the scheduler returns, it returns one payment per period of the frequency, each
  of the rounded amount \<open>round(amount * yield / paymentsPerYear)\<close>, whatever the dates.
\<close>

lemma calculateDividends_shape:
  assumes "calculateDividends tz amt yld freq y = Inr divs"
  shows "length divs = paymentsPerYear freq"
    and "\<forall>d \<in> set divs. amount d = math_round (amt * yld / real (paymentsPerYear freq))"
    and "sumDividendAmounts divs =
           real (paymentsPerYear freq) * math_round (amt * yld / real (paymentsPerYear freq))"
proof -
  let ?dpp = "amt * yld / real (paymentsPerYear freq)"
  from assms have "calculateDividends_loop tz y ?dpp (paymentsPerYear freq) 0 [] = Inr divs"
    by (simp add: calculateDividends_def Let_def)
  from calculateDividends_loop_amounts [OF this]
  show len: "length divs = paymentsPerYear freq"
    and amounts: "\<forall>d \<in> set divs. amount d = math_round ?dpp"
    by simp_all
  from foldl_amounts_const [OF amounts, of 0] len
  show "sumDividendAmounts divs = real (paymentsPerYear freq) * math_round ?dpp"
    by (simp add: sumDividendAmounts_def)
qed

lemma sumDividendAmounts_whole:
  assumes "calculateDividends tz amt yld freq y = Inr divs"
  shows "\<exists>k::int. sumDividendAmounts divs = of_int k"
proof -
  have "sumDividendAmounts divs =
          of_int (int (paymentsPerYear freq) *
                  \<lfloor>amt * yld / real (paymentsPerYear freq) + 1 / 2\<rfloor>)"
    by (simp add: calculateDividends_shape(3) [OF assms] math_round_def)
  then show ?thesis by blast
qed

text \<open>
  Where local time is at or behind UTC, and the year is after 99, the quarterly payments
  are dated the 1st of January, April, July and October of the year.
\<close>

lemma js_firstOfMonth_isoDate_west:
  assumes "tz \<le> 0" "99 < y" "y < 275760" "0 \<le> m" "m \<le> 11"
  shows "js_firstOfMonth_isoDate tz y m = Inr \<lparr>d_year = y, d_month = m + 1, d_day = 1\<rparr>"
proof -
  from assms have "m div 12 = 0" "m mod 12 = m" by auto
  with assms show ?thesis
    by (simp add: js_firstOfMonth_isoDate_def Let_def)
qed

lemma calculateDividends_quarterly_west:
  assumes "tz \<le> 0" "99 < y" "y < 275760"
  shows "calculateDividends tz amt yld ''quarterly'' y =
     Inr [\<lparr>date = \<lparr>d_year = y, d_month = 1, d_day = 1\<rparr>, amount = math_round (amt * yld / 4)\<rparr>,
          \<lparr>date = \<lparr>d_year = y, d_month = 4, d_day = 1\<rparr>, amount = math_round (amt * yld / 4)\<rparr>,
          \<lparr>date = \<lparr>d_year = y, d_month = 7, d_day = 1\<rparr>, amount = math_round (amt * yld / 4)\<rparr>,
          \<lparr>date = \<lparr>d_year = y, d_month = 10, d_day = 1\<rparr>, amount = math_round (amt * yld / 4)\<rparr>]"
proof -
  have m: "js_firstOfMonth_isoDate tz y m = Inr \<lparr>d_year = y, d_month = m + 1, d_day = 1\<rparr>"
    if "0 \<le> m" "m \<le> 11" for m
    using assms that by (rule js_firstOfMonth_isoDate_west)
  show ?thesis
    by (simp add: calculateDividends_def paymentsPerYear_def Let_def m)
qed

text \<open>
  Claim C4. Quarterly dividends are four payments of \<open>round(amount * yield / 4)\<close>
  each, dated the 1st of the months 0, 3, 6 and 9 of the year. On a device whose local
  time is ahead of UTC the code dates them otherwise: for 100000 at a yield of 4 percent
  in 2024, nine hours ahead of UTC, the four payments of 1000 carry the last day of the
  month before, 2023-12-31, 2024-03-31, 2024-06-30 and 2024-09-30, because the date is
  built at local midnight and printed in UTC.
\<close>

theorem quarterly_dividends_east_of_utc:
  "calculateDividends 540 100000 0.04 ''quarterly'' 2024 =
     Inr [\<lparr>date = \<lparr>d_year = 2023, d_month = 12, d_day = 31\<rparr>, amount = 1000\<rparr>,
          \<lparr>date = \<lparr>d_year = 2024, d_month = 3, d_day = 31\<rparr>, amount = 1000\<rparr>,
          \<lparr>date = \<lparr>d_year = 2024, d_month = 6, d_day = 30\<rparr>, amount = 1000\<rparr>,
          \<lparr>date = \<lparr>d_year = 2024, d_month = 9, d_day = 30\<rparr>, amount = 1000\<rparr>]"
  by (simp add: calculateDividends_def paymentsPerYear_def js_firstOfMonth_isoDate_def math_round_def
      daysInMonth_def isLeapYear_def Let_def)

section \<open>Properties of the yearly projector\<close>

lemma calculateYearPerformance_fields:
  assumes "calculateYearPerformance tz y sv rets = Inr p"
  shows "year p = y" and "startValue p = math_round sv"
    and "math_round (endValue p) = endValue p"
  using assms
  by (auto simp: calculateYearPerformance_def Let_def math_round_idem
      split: option.splits sum.splits)

text \<open>
  The code rounds the sum \<open>evaluationAmount + totalDividends\<close> once. The total is a
  whole number, and the sum is a double addition, whose result is the exact sum plus a
  rounding error \<open>e\<close> far below one unit. Whatever that error, the rounded sum is
  within one unit of \<open>round(evaluationAmount) + totalDividends\<close>.
\<close>

lemma math_round_sum_tolerance:
  assumes "\<bar>e\<bar> < 1"
  shows "\<bar>math_round (ev + of_int k + e) - (math_round ev + of_int k)\<bar> \<le> 1"
proof -
  let ?x = "ev + 1 / 2"
  have "ev + of_int k + e + 1 / 2 = (?x + e) + of_int k" by simp
  then have split: "\<lfloor>ev + of_int k + e + 1 / 2\<rfloor> = \<lfloor>?x + e\<rfloor> + k"
    by (simp only: floor_add_int)
  from assms have "?x + e < of_int (\<lfloor>?x\<rfloor> + 2)" by (simp add: abs_less_iff) linarith
  then have up: "\<lfloor>?x + e\<rfloor> < \<lfloor>?x\<rfloor> + 2" by (simp only: floor_less_iff)
  from assms have "of_int (\<lfloor>?x\<rfloor> - 1) \<le> ?x + e" by (simp add: abs_less_iff) linarith
  then have low: "\<lfloor>?x\<rfloor> - 1 \<le> \<lfloor>?x + e\<rfloor>" by (simp only: le_floor_iff)
  from up low have "\<bar>\<lfloor>?x + e\<rfloor> - \<lfloor>?x\<rfloor>\<bar> \<le> 1" by linarith
  then have "\<bar>real_of_int (\<lfloor>?x + e\<rfloor> - \<lfloor>?x\<rfloor>)\<bar> \<le> 1"
    by (metis of_int_abs of_int_le_1_iff)
  then show ?thesis
    by (simp add: math_round_def split)
qed

lemma reinvested_sum_tolerance:
  assumes "calculateDividends tz amt yld freq y = Inr divs" and "\<bar>e\<bar> < 1"
  shows "\<bar>math_round (ev + sumDividendAmounts divs + e)
          - (math_round ev + sumDividendAmounts divs)\<bar> \<le> 1"
proof -
  from sumDividendAmounts_whole [OF assms(1)] obtain k :: int where
    "sumDividendAmounts divs = of_int k" by blast
  with math_round_sum_tolerance [OF assms(2), of ev k] show ?thesis by simp
qed

text \<open>
  The one unit is reached, so the two sides need not be equal. For 3900 at 4.5 percent
  compounded yearly with a yield of 2 percent paid quarterly, the double evaluation
  amount is 4075.5 less \<open>2 ^ -41\<close> and rounds to 4075; its double sum with the
  dividends of 80 is 4155.5, the addition having rounded up by \<open>2 ^ -41\<close>, and rounds
  to 4156, one more than 4075 + 80.
\<close>

lemma rounded_sum_one_unit_apart:
  "math_round (4075.5 - 1 / 2 ^ 41) + 80 = 4155 \<and>
   math_round ((4075.5 - 1 / 2 ^ 41) + 80 + 1 / 2 ^ 41) = 4156"
  by (simp add: math_round_def)

text \<open>
  Claim C5. Reinvestment additivity: when the income-gain settings are present and the
  dividend scheduler produces the year's payments, of total \<open>D\<close>, the record computed
  with \<open>reinvestDividends = true\<close> has an end value within rounding tolerance, one
  unit, of \<open>round(evaluationAmount) + D\<close>, and the record computed with
  \<open>reinvestDividends = false\<close>, all else equal, has the end value
  \<open>round(evaluationAmount)\<close>, without \<open>D\<close>. Both records report the total
  \<open>D\<close>.
\<close>

theorem reinvestment_additivity:
  assumes "calculateDividends tz sv (dividendYield ig) (paymentFrequency ig) y = Inr divs"
  shows "\<exists>pT pF.
      calculateYearPerformance tz y sv
        \<lparr>capitalGain = cg, incomeGain = Some (ig\<lparr>reinvestDividends := True\<rparr>)\<rparr> = Inr pT \<and>
      calculateYearPerformance tz y sv
        \<lparr>capitalGain = cg, incomeGain = Some (ig\<lparr>reinvestDividends := False\<rparr>)\<rparr> = Inr pF \<and>
      totalDividends pT = sumDividendAmounts divs \<and>
      totalDividends pF = sumDividendAmounts divs \<and>
      \<bar>endValue pT -
        (math_round (evaluationAmount
           (calculateCapitalGain sv (annualRate cg) (compoundingFrequency cg)))
         + sumDividendAmounts divs)\<bar> \<le> 1 \<and>
      endValue pF =
        math_round (evaluationAmount
          (calculateCapitalGain sv (annualRate cg) (compoundingFrequency cg)))"
proof -
  let ?ev = "evaluationAmount (calculateCapitalGain sv (annualRate cg) (compoundingFrequency cg))"
  from sumDividendAmounts_whole [OF assms] obtain k :: int where
    k: "sumDividendAmounts divs = of_int k" by blast
  from reinvested_sum_tolerance [OF assms, of 0 ?ev]
  have tol: "\<bar>math_round (?ev + sumDividendAmounts divs)
              - (math_round ?ev + sumDividendAmounts divs)\<bar> \<le> 1"
    by simp
  show ?thesis
    using assms tol
    by (simp add: calculateYearPerformance_def Let_def k math_round_of_int)
qed

theorem reinvestment_additivity_witness:
  "\<exists>pT pF.
      calculateYearPerformance 0 2024 100000
        \<lparr>capitalGain = \<lparr>annualRate = 0.05, compoundingFrequency = ''yearly''\<rparr>,
         incomeGain = Some \<lparr>dividendYield = 0.04, paymentFrequency = ''quarterly'',
                            reinvestDividends = True\<rparr>\<rparr> = Inr pT \<and>
      calculateYearPerformance 0 2024 100000
        \<lparr>capitalGain = \<lparr>annualRate = 0.05, compoundingFrequency = ''yearly''\<rparr>,
         incomeGain = Some \<lparr>dividendYield = 0.04, paymentFrequency = ''quarterly'',
                            reinvestDividends = False\<rparr>\<rparr> = Inr pF \<and>
      totalDividends pT = 4000 \<and> \<bar>endValue pT - (105000 + 4000)\<bar> \<le> 1 \<and>
      endValue pF = 105000"
proof -
  let ?ig = "\<lparr>dividendYield = 0.04, paymentFrequency = ''quarterly'', reinvestDividends = True\<rparr>"
  let ?divs = "[\<lparr>date = \<lparr>d_year = 2024, d_month = 1, d_day = 1\<rparr>, amount = 1000\<rparr>,
          \<lparr>date = \<lparr>d_year = 2024, d_month = 4, d_day = 1\<rparr>, amount = 1000\<rparr>,
          \<lparr>date = \<lparr>d_year = 2024, d_month = 7, d_day = 1\<rparr>, amount = 1000\<rparr>,
          \<lparr>date = \<lparr>d_year = 2024, d_month = 10, d_day = 1\<rparr>, amount = 1000\<rparr>]"
  have h: "calculateDividends 0 100000 (dividendYield ?ig) (paymentFrequency ?ig) 2024 = Inr ?divs"
    by (simp add: calculateDividends_def paymentsPerYear_def js_firstOfMonth_isoDate_def
        math_round_def Let_def)
  have s: "sumDividendAmounts ?divs = 4000"
    by (simp add: sumDividendAmounts_def)
  have e: "math_round (evaluationAmount (calculateCapitalGain 100000 0.05 ''yearly'')) = 105000"
    by (simp add: calculateCapitalGain_def math_round_def Let_def)
  from reinvestment_additivity [OF h, of "\<lparr>annualRate = 0.05, compoundingFrequency = ''yearly''\<rparr>"] s e
  show ?thesis by auto
qed

section \<open>Properties of the lifetime projection\<close>

lemma initializeYearlyPerformance_loop_chain:
  "initializeYearlyPerformance_loop tz rets endYear y cur perf = Inr res \<Longrightarrow>
     \<exists>rest. res = perf @ rest \<and> chain_from (math_round cur) rest \<and>
            int (length rest) = max 0 (endYear + 1 - y)"
proof (induction tz rets endYear y cur perf rule: initializeYearlyPerformance_loop.induct)
  case (1 tz rets endYear y cur perf)
  show ?case
  proof (cases "y \<le> endYear")
    case False
    with "1.prems" show ?thesis by simp
  next
    case True
    with "1.prems" obtain p where
      p: "calculateYearPerformance tz y cur rets = Inr p"
      and rec: "initializeYearlyPerformance_loop tz rets endYear (y + 1) (endValue p) (perf @ [p])
                  = Inr res"
      by (auto split: sum.splits)
    from "1.IH" [OF True p rec] obtain rest where
      rest: "res = (perf @ [p]) @ rest" "chain_from (math_round (endValue p)) rest"
        "int (length rest) = max 0 (endYear + 1 - (y + 1))"
      by blast
    from p have "startValue p = math_round cur" "math_round (endValue p) = endValue p"
      by (rule calculateYearPerformance_fields)+
    with rest True show ?thesis
      by (intro exI [of _ "p # rest"]) auto
  qed
qed

lemma chain_from_nth:
  "chain_from s ps \<Longrightarrow> Suc n < length ps \<Longrightarrow> startValue (ps ! Suc n) = endValue (ps ! n)"
proof (induction ps arbitrary: s n)
  case Nil
  then show ?case by simp
next
  case (Cons p ps)
  show ?case
  proof (cases n)
    case 0
    with Cons.prems show ?thesis by (cases ps) auto
  next
    case (Suc m)
    with Cons show ?thesis by auto
  qed
qed

lemma chain_from_first: "chain_from s ps \<Longrightarrow> ps \<noteq> [] \<Longrightarrow> startValue (ps ! 0) = s"
  by (cases ps) auto

lemma initializeYearlyPerformance_chain_from:
  assumes "initializeYearlyPerformance tz sd md amt rets = Inr perf"
  shows "chain_from (math_round amt) perf"
proof -
  from assms obtain endYear where
    "initializeYearlyPerformance_loop tz rets endYear (js_getFullYear tz sd) amt [] = Inr perf"
    by (auto simp: initializeYearlyPerformance_def Let_def)
  from initializeYearlyPerformance_loop_chain [OF this]
  show ?thesis by simp
qed

text \<open>
  The sequences that \<open>createAsset\<close> and the recomputing \<open>updateAsset\<close> store are
  chained from the rounded principal of the stored asset.
\<close>

lemma createAsset_chain:
  assumes "createAsset tz store newId data = Inr (i, store')"
  shows "\<exists>a. store' i = Some a \<and> initialAmount a = in_initialAmount data \<and>
           chain_from (math_round (initialAmount a)) (yearlyPerformance a)"
  using assms
  by (auto simp: createAsset_def split: sum.splits dest: initializeYearlyPerformance_chain_from)

lemma updateAsset_chain:
  assumes "updateAsset tz store i data = Inr store'" "affects_valuation data" "store i = Some a0"
  shows "\<exists>a. store' i = Some a \<and>
           chain_from (math_round (initialAmount a)) (yearlyPerformance a)"
  using assms
  by (auto simp: updateAsset_def Let_def split: sum.splits
      dest: initializeYearlyPerformance_chain_from)

text \<open>
  Claim C1. Chain invariant: in every sequence the lifetime projection produces, each
  record after the first starts at the end value of the record before it. The first
  record starts at the principal rounded to the nearest whole unit, which is the
  principal itself when, and only when, the principal is a whole number.
\<close>

theorem projection_chain:
  assumes "initializeYearlyPerformance tz sd md amt rets = Inr perf"
  shows "(\<forall>n. Suc n < length perf \<longrightarrow> startValue (perf ! Suc n) = endValue (perf ! n)) \<and>
         (perf \<noteq> [] \<longrightarrow> startValue (perf ! 0) = math_round amt) \<and>
         (perf \<noteq> [] \<and> amt = of_int \<lfloor>amt\<rfloor> \<longrightarrow> startValue (perf ! 0) = amt)"
proof -
  have whole: "math_round amt = amt" if "amt = of_int \<lfloor>amt\<rfloor>"
    using math_round_of_int [of "\<lfloor>amt\<rfloor>"] that by simp
  from initializeYearlyPerformance_chain_from [OF assms] whole
  show ?thesis
    by (auto dest: chain_from_nth chain_from_first)
qed

text \<open>
  The example asset of 1000, and the same asset with a principal of 1000.5: its first
  record starts at 1001, not at 1000.5.
\<close>

lemma projection_example:
  "initializeYearlyPerformance 0 \<lparr>d_year = 2024, d_month = 1, d_day = 1\<rparr>
      (Some \<lparr>d_year = 2025, d_month = 6, d_day = 30\<rparr>) 1000 rets_example =
   Inr perf_example"
  by (simp add: initializeYearlyPerformance_def js_getFullYear_def
      calculateYearPerformance_def calculateCapitalGain_def calculateDividends_def
      paymentsPerYear_def sumDividendAmounts_def js_firstOfMonth_isoDate_def
      math_round_def Let_def)

lemma projection_fractional_example:
  "initializeYearlyPerformance 0 \<lparr>d_year = 2024, d_month = 1, d_day = 1\<rparr>
      (Some \<lparr>d_year = 2025, d_month = 6, d_day = 30\<rparr>) 1000.5 rets_example =
   Inr [\<lparr>year = 2024, startValue = 1001, endValue = 1061, capitalGains = 40,
         dividends = [\<lparr>date = \<lparr>d_year = 2024, d_month = 1, d_day = 1\<rparr>, amount = 20\<rparr>],
         totalDividends = 20, actualEndValue = None, actualCapitalGains = None,
         actualDividends = None, actualTotalDividends = None\<rparr>,
        \<lparr>year = 2025, startValue = 1061, endValue = 1124, capitalGains = 42,
         dividends = [\<lparr>date = \<lparr>d_year = 2025, d_month = 1, d_day = 1\<rparr>, amount = 21\<rparr>],
         totalDividends = 21, actualEndValue = None, actualCapitalGains = None,
         actualDividends = None, actualTotalDividends = None\<rparr>]"
  by (simp add: initializeYearlyPerformance_def js_getFullYear_def
      calculateYearPerformance_def calculateCapitalGain_def calculateDividends_def
      paymentsPerYear_def sumDividendAmounts_def js_firstOfMonth_isoDate_def
      math_round_def Let_def)

theorem projection_chain_witness:
  "\<exists>perf. initializeYearlyPerformance 0 \<lparr>d_year = 2024, d_month = 1, d_day = 1\<rparr>
      (Some \<lparr>d_year = 2025, d_month = 6, d_day = 30\<rparr>) 1000.5 rets_example = Inr perf \<and>
     length perf = 2 \<and> startValue (perf ! 1) = endValue (perf ! 0) \<and>
     startValue (perf ! 0) = math_round 1000.5"
  using projection_chain [OF projection_fractional_example] projection_fractional_example
  by simp

theorem first_startValue_counterexample:
  "\<exists>store a.
     createAsset 0 Map.empty ''a1''
       \<lparr>in_name = ''fund'', in_initialAmount = 1000.5, in_category = ''stocks'',
        in_startDate = \<lparr>d_year = 2024, d_month = 1, d_day = 1\<rparr>,
        in_maturityDate = Some \<lparr>d_year = 2025, d_month = 6, d_day = 30\<rparr>,
        in_returns = rets_example\<rparr> = Inr (''a1'', store) \<and>
     store ''a1'' = Some a \<and> initialAmount a = 1000.5 \<and>
     startValue (yearlyPerformance a ! 0) = 1001 \<and>
     startValue (yearlyPerformance a ! 0) \<noteq> initialAmount a"
  by (simp only: createAsset_def asset_input.simps projection_fractional_example) simp

text \<open>
  Claim C2. The scenario of an asset of 100000 starting on 2024-01-01 with no maturity
  date, 5 percent compounded yearly and no income-gain settings: the claim expects a
  record for 2024 with no dividends. The code raises a TypeError in the first year
  instead, in every time zone, because the destructuring reads three properties of the
  missing \<open>incomeGain\<close>.
\<close>

theorem projection_without_incomeGain_raises:
  "initializeYearlyPerformance tz \<lparr>d_year = 2024, d_month = 1, d_day = 1\<rparr> None 100000
     \<lparr>capitalGain = \<lparr>annualRate = 0.05, compoundingFrequency = ''yearly''\<rparr>,
      incomeGain = None\<rparr> = Inl TypeError"
  by (simp add: initializeYearlyPerformance_def Let_def calculateYearPerformance_def)

section \<open>Totality of the projection\<close>

text \<open>
  The scheduler and the projection raise nothing when the income-gain settings are there
  and the calendar years are years a JavaScript date can hold.
\<close>

lemma js_firstOfMonth_isoDate_valid:
  assumes "- 271821 < y" "y < 275760" "0 \<le> m" "m \<le> 11"
  shows "\<exists>d. js_firstOfMonth_isoDate tz y m = Inr d"
proof -
  from assms have "m div 12 = 0" "m mod 12 = m" by auto
  with assms show ?thesis
    by (auto simp: js_firstOfMonth_isoDate_def Let_def)
qed

lemma month_index_range:
  assumes "i < n"
  shows "0 \<le> \<lfloor>(12 / real n) * real i\<rfloor>" and "\<lfloor>(12 / real n) * real i\<rfloor> \<le> 11"
proof -
  from assms have n: "0 < real n" by simp
  have "0 \<le> (12 / real n) * real i" by simp
  then show "0 \<le> \<lfloor>(12 / real n) * real i\<rfloor>" by simp
  from assms have "real i < real n" by simp
  with n have "real i / real n < 1" by simp
  then have "(12 / real n) * real i < 12" by simp
  then have "\<lfloor>(12 / real n) * real i\<rfloor> < 12" by (simp add: floor_less_iff)
  then show "\<lfloor>(12 / real n) * real i\<rfloor> \<le> 11" by simp
qed

lemma calculateDividends_loop_total:
  assumes "- 271821 < y" "y < 275760"
  shows "\<exists>res. calculateDividends_loop tz y dpp n i divs = Inr res"
proof (induction "n - i" arbitrary: i divs)
  case 0
  then show ?case by simp
next
  case (Suc k)
  then have lt: "i < n" by simp
  from js_firstOfMonth_isoDate_valid [OF assms month_index_range [OF lt]]
  obtain d where d: "js_firstOfMonth_isoDate tz y \<lfloor>(12 / real n) * real i\<rfloor> = Inr d"
    by blast
  from Suc have "k = n - Suc i" by simp
  from Suc.hyps(1) [OF this] obtain res where
    "calculateDividends_loop tz y dpp n (Suc i)
       (divs @ [\<lparr>date = d, amount = math_round dpp\<rparr>]) = Inr res" by blast
  with lt d show ?case by simp
qed

lemma calculateYearPerformance_total:
  assumes "incomeGain rets = Some ig" "- 271821 < y" "y < 275760"
  shows "\<exists>p. calculateYearPerformance tz y sv rets = Inr p"
proof -
  from calculateDividends_loop_total [OF assms(2,3)]
  obtain divs where "calculateDividends tz sv (dividendYield ig) (paymentFrequency ig) y = Inr divs"
    unfolding calculateDividends_def Let_def by blast
  with assms(1) show ?thesis
    by (simp add: calculateYearPerformance_def Let_def)
qed

lemma initializeYearlyPerformance_loop_total:
  assumes "incomeGain rets = Some ig" "endYear < 275760"
  shows "- 271821 < y \<Longrightarrow>
     \<exists>res. initializeYearlyPerformance_loop tz rets endYear y cur perf = Inr res"
proof (induction "nat (endYear + 1 - y)" arbitrary: y cur perf)
  case 0
  then have "\<not> y \<le> endYear" by simp
  then show ?case by simp
next
  case (Suc k)
  then have le: "y \<le> endYear" by simp
  with assms(2) have "y < 275760" by simp
  from calculateYearPerformance_total [OF assms(1) Suc.prems this]
  obtain p where p: "calculateYearPerformance tz y cur rets = Inr p" by blast
  from Suc.hyps(2) have "k = nat (endYear + 1 - (y + 1))" by simp
  moreover from Suc.prems have "- 271821 < y + 1" by simp
  ultimately obtain res where
    "initializeYearlyPerformance_loop tz rets endYear (y + 1) (endValue p) (perf @ [p]) = Inr res"
    using Suc.hyps(1) by blast
  with le p show ?case by simp
qed

text \<open>
  With income-gain settings present and calendar years that JavaScript dates can hold,
  the projection raises nothing and has one record for each year from the start year to
  the end year.
\<close>

lemma initializeYearlyPerformance_total:
  assumes "incomeGain rets = Some ig"
    and "- 271821 < js_getFullYear tz sd"
    and "(case md of Some m \<Rightarrow> js_getFullYear tz m | None \<Rightarrow> js_getFullYear tz sd + 50) < 275760"
  shows "\<exists>perf. initializeYearlyPerformance tz sd md amt rets = Inr perf \<and>
           int (length perf) =
             max 0 ((case md of Some m \<Rightarrow> js_getFullYear tz m | None \<Rightarrow> js_getFullYear tz sd + 50)
                     + 1 - js_getFullYear tz sd)"
proof -
  let ?e = "case md of Some m \<Rightarrow> js_getFullYear tz m | None \<Rightarrow> js_getFullYear tz sd + 50"
  from initializeYearlyPerformance_loop_total [OF assms(1) assms(3) assms(2)]
  obtain perf where
    perf: "initializeYearlyPerformance_loop tz rets ?e (js_getFullYear tz sd) amt [] = Inr perf"
    by blast
  from initializeYearlyPerformance_loop_chain [OF perf]
  have "int (length perf) = max 0 (?e + 1 - js_getFullYear tz sd)" by simp
  with perf show ?thesis
    by (simp add: initializeYearlyPerformance_def Let_def)
qed

text \<open>The first record is the projection of the start year from the principal.\<close>

lemma initializeYearlyPerformance_first:
  assumes "initializeYearlyPerformance tz sd md amt rets = Inr perf" and "perf \<noteq> []"
  shows "calculateYearPerformance tz (js_getFullYear tz sd) amt rets = Inr (perf ! 0)"
proof -
  from assms(1) obtain endYear where
    loop: "initializeYearlyPerformance_loop tz rets endYear (js_getFullYear tz sd) amt [] = Inr perf"
    by (auto simp: initializeYearlyPerformance_def Let_def)
  show ?thesis
  proof (cases "js_getFullYear tz sd \<le> endYear")
    case False
    with loop assms(2) show ?thesis by simp
  next
    case True
    with loop obtain p where
      p: "calculateYearPerformance tz (js_getFullYear tz sd) amt rets = Inr p"
      and rec: "initializeYearlyPerformance_loop tz rets endYear (js_getFullYear tz sd + 1)
                  (endValue p) ([] @ [p]) = Inr perf"
      by (auto split: sum.splits)
    from initializeYearlyPerformance_loop_chain [OF rec]
    obtain rest where "perf = ([] @ [p]) @ rest" by blast
    then have "perf ! 0 = p" by simp
    with p show ?thesis by simp
  qed
qed

text \<open>
  The scenario of claim C2 with income-gain settings of yield zero in place of none,
  where local time is at or ahead of UTC: 51 records, and the record of 2024 starts at
  100000, gains 5000, ends at 105000 and has no dividends.
\<close>

lemma scenario_with_incomeGain:
  assumes "0 \<le> tz"
  shows "\<exists>perf.
     initializeYearlyPerformance tz \<lparr>d_year = 2024, d_month = 1, d_day = 1\<rparr> None 100000
       \<lparr>capitalGain = \<lparr>annualRate = 0.05, compoundingFrequency = ''yearly''\<rparr>,
        incomeGain = Some \<lparr>dividendYield = 0, paymentFrequency = ''yearly'',
                           reinvestDividends = False\<rparr>\<rparr> = Inr perf \<and>
     length perf = 51 \<and> year (perf ! 0) = 2024 \<and> startValue (perf ! 0) = 100000 \<and>
     capitalGains (perf ! 0) = 5000 \<and> endValue (perf ! 0) = 105000 \<and>
     totalDividends (perf ! 0) = 0"
proof -
  let ?sd = "\<lparr>d_year = 2024, d_month = 1, d_day = 1\<rparr>"
  let ?ig = "\<lparr>dividendYield = 0, paymentFrequency = ''yearly'', reinvestDividends = False\<rparr>"
  let ?rets = "\<lparr>capitalGain = \<lparr>annualRate = 0.05, compoundingFrequency = ''yearly''\<rparr>,
                incomeGain = Some ?ig\<rparr>"
  from assms have y: "js_getFullYear tz ?sd = 2024" by (simp add: js_getFullYear_def)
  have "\<exists>perf. initializeYearlyPerformance tz ?sd None 100000 ?rets = Inr perf \<and>
          int (length perf) =
            max 0 ((case None :: iso_date option of
                      Some m \<Rightarrow> js_getFullYear tz m
                    | None \<Rightarrow> js_getFullYear tz ?sd + 50) + 1 - js_getFullYear tz ?sd)"
    by (rule initializeYearlyPerformance_total [where ig = ?ig]) (simp_all add: y)
  then obtain perf where
    perf: "initializeYearlyPerformance tz ?sd None 100000 ?rets = Inr perf"
    and len: "length perf = 51"
    by (auto simp: y)
  from len have "perf \<noteq> []" by auto
  from initializeYearlyPerformance_first [OF perf this]
  have first: "calculateYearPerformance tz 2024 100000 ?rets = Inr (perf ! 0)"
    by (simp add: y)
  then obtain divs where
    divs: "calculateDividends tz 100000 0 ''yearly'' 2024 = Inr divs"
    by (auto simp: calculateYearPerformance_def Let_def split: sum.splits)
  from calculateDividends_shape(3) [OF divs]
  have "sumDividendAmounts divs = 0"
    by (simp add: math_round_def)
  with first divs have
    "perf ! 0 = \<lparr>year = 2024, startValue = 100000, endValue = 105000, capitalGains = 5000,
                  dividends = divs, totalDividends = 0, actualEndValue = None,
                  actualCapitalGains = None, actualDividends = None,
                  actualTotalDividends = None\<rparr>"
    by (simp add: calculateYearPerformance_def calculateCapitalGain_def math_round_def Let_def)
  with perf len show ?thesis by simp
qed

section \<open>Properties of the reconciliation\<close>

lemma findIndex_from_cases:
  "0 \<le> i \<Longrightarrow>
     (findIndex_from P xs i = - 1 \<and> (\<forall>x \<in> set xs. \<not> P x)) \<or>
     (\<exists>n < length xs. findIndex_from P xs i = i + int n \<and> P (xs ! n) \<and>
        (\<forall>m < n. \<not> P (xs ! m)))"
proof (induction xs arbitrary: i)
  case Nil
  then show ?case by simp
next
  case (Cons x xs)
  show ?case
  proof (cases "P x")
    case True
    then show ?thesis by (intro disjI2 exI [of _ 0]) simp
  next
    case False
    from Cons.prems have "0 \<le> i + 1" by simp
    from Cons.IH [OF this] show ?thesis
    proof
      assume "findIndex_from P xs (i + 1) = - 1 \<and> (\<forall>x \<in> set xs. \<not> P x)"
      with False show ?thesis by simp
    next
      assume "\<exists>n < length xs. findIndex_from P xs (i + 1) = i + 1 + int n \<and> P (xs ! n) \<and>
        (\<forall>m < n. \<not> P (xs ! m))"
      then obtain n where n: "n < length xs" "findIndex_from P xs (i + 1) = i + 1 + int n"
        "P (xs ! n)" "\<forall>m < n. \<not> P (xs ! m)" by blast
      have "\<forall>m < Suc n. \<not> P ((x # xs) ! m)"
        using False n(4) by (auto simp: less_Suc_eq_0_disj)
      with n False show ?thesis
        by (intro disjI2 exI [of _ "Suc n"]) simp
    qed
  qed
qed

lemma findIndex_cases:
  "(findIndex P xs = - 1 \<and> (\<forall>x \<in> set xs. \<not> P x)) \<or>
   (\<exists>n < length xs. findIndex P xs = int n \<and> P (xs ! n) \<and> (\<forall>m < n. \<not> P (xs ! m)))"
  using findIndex_from_cases [of 0 P xs] by (simp add: findIndex_def)

text \<open>The patch of one record.\<close>

lemma updateActualPerformance_cases:
  assumes "store i = Some a"
  shows "(updateActualPerformance store i y ad = store \<and>
            (\<forall>p \<in> set (yearlyPerformance a). year p \<noteq> y)) \<or>
         (\<exists>n < length (yearlyPerformance a).
            year (yearlyPerformance a ! n) = y \<and>
            (\<forall>m < n. year (yearlyPerformance a ! m) \<noteq> y) \<and>
            updateActualPerformance store i y ad =
              store(i \<mapsto> a\<lparr>yearlyPerformance :=
                (yearlyPerformance a)[n := (yearlyPerformance a ! n)
                   \<lparr>actualEndValue := ad_endValue ad,
                    actualCapitalGains := ad_capitalGains ad,
                    actualDividends := ad_dividends ad,
                    actualTotalDividends := ad_totalDividends ad\<rparr>]\<rparr>))"
  using findIndex_cases [of "\<lambda>p. year p = y" "yearlyPerformance a"] assms
  by (auto simp: updateActualPerformance_def Let_def)

lemma updateActualPerformance_unknown_asset:
  "store i = None \<Longrightarrow> updateActualPerformance store i y ad = store"
  by (simp add: updateActualPerformance_def)

text \<open>
  Claim C6. Reconciliation isolation: for a stored asset, a target year and a payload,
  \<open>updateActualPerformance\<close> keeps the asset under its id with every field but
  \<open>yearlyPerformance\<close> as it was, and keeps the number of records; every record whose
  year differs from the target is left identical; the projected fields (year,
  startValue, endValue, capitalGains, dividends, totalDividends) of every record, the
  matched one included, are untouched; when no record has the target year the store is
  left entirely unchanged; and when one has, the first such record, and only it, gets its
  four actual fields from the payload.
\<close>

theorem reconciliation_isolation:
  assumes "store i = Some a"
  shows "\<exists>a'. updateActualPerformance store i y ad i = Some a' \<and>
     a'\<lparr>yearlyPerformance := yearlyPerformance a\<rparr> = a \<and>
     length (yearlyPerformance a') = length (yearlyPerformance a) \<and>
     (\<forall>n < length (yearlyPerformance a).
        year (yearlyPerformance a ! n) \<noteq> y \<longrightarrow>
          yearlyPerformance a' ! n = yearlyPerformance a ! n) \<and>
     (\<forall>n < length (yearlyPerformance a).
        year (yearlyPerformance a' ! n) = year (yearlyPerformance a ! n) \<and>
        startValue (yearlyPerformance a' ! n) = startValue (yearlyPerformance a ! n) \<and>
        endValue (yearlyPerformance a' ! n) = endValue (yearlyPerformance a ! n) \<and>
        capitalGains (yearlyPerformance a' ! n) = capitalGains (yearlyPerformance a ! n) \<and>
        dividends (yearlyPerformance a' ! n) = dividends (yearlyPerformance a ! n) \<and>
        totalDividends (yearlyPerformance a' ! n) = totalDividends (yearlyPerformance a ! n)) \<and>
     ((\<forall>p \<in> set (yearlyPerformance a). year p \<noteq> y) \<longrightarrow>
        updateActualPerformance store i y ad = store) \<and>
     ((\<exists>p \<in> set (yearlyPerformance a). year p = y) \<longrightarrow>
        (\<exists>n < length (yearlyPerformance a).
           year (yearlyPerformance a ! n) = y \<and>
           (\<forall>m < n. year (yearlyPerformance a ! m) \<noteq> y) \<and>
           yearlyPerformance a' =
             (yearlyPerformance a)[n := (yearlyPerformance a ! n)
                \<lparr>actualEndValue := ad_endValue ad,
                 actualCapitalGains := ad_capitalGains ad,
                 actualDividends := ad_dividends ad,
                 actualTotalDividends := ad_totalDividends ad\<rparr>]))"
  using updateActualPerformance_cases [of store i a y ad, OF assms]
proof
  assume "updateActualPerformance store i y ad = store \<and>
            (\<forall>p \<in> set (yearlyPerformance a). year p \<noteq> y)"
  with assms show ?thesis by auto
next
  assume "\<exists>n < length (yearlyPerformance a).
            year (yearlyPerformance a ! n) = y \<and>
            (\<forall>m < n. year (yearlyPerformance a ! m) \<noteq> y) \<and>
            updateActualPerformance store i y ad =
              store(i \<mapsto> a\<lparr>yearlyPerformance :=
                (yearlyPerformance a)[n := (yearlyPerformance a ! n)
                   \<lparr>actualEndValue := ad_endValue ad,
                    actualCapitalGains := ad_capitalGains ad,
                    actualDividends := ad_dividends ad,
                    actualTotalDividends := ad_totalDividends ad\<rparr>]\<rparr>)"
  then obtain n where n: "n < length (yearlyPerformance a)"
    "year (yearlyPerformance a ! n) = y"
    "\<forall>m < n. year (yearlyPerformance a ! m) \<noteq> y"
    and upd: "updateActualPerformance store i y ad =
              store(i \<mapsto> a\<lparr>yearlyPerformance :=
                (yearlyPerformance a)[n := (yearlyPerformance a ! n)
                   \<lparr>actualEndValue := ad_endValue ad,
                    actualCapitalGains := ad_capitalGains ad,
                    actualDividends := ad_dividends ad,
                    actualTotalDividends := ad_totalDividends ad\<rparr>]\<rparr>)"
    by blast
  from n have "yearlyPerformance a ! n \<in> set (yearlyPerformance a)"
    by simp
  with n have ex: "\<exists>p \<in> set (yearlyPerformance a). year p = y"
    by blast
  show ?thesis
    unfolding upd using n ex
    by (auto simp: nth_list_update)
qed

theorem reconciliation_isolation_witness:
  "\<exists>a'. updateActualPerformance [''a1'' \<mapsto> asset_example] ''a1'' 2025
            \<lparr>ad_endValue = Some 1200, ad_capitalGains = Some 100,
             ad_dividends = Some [], ad_totalDividends = Some 0\<rparr> ''a1'' = Some a' \<and>
     length (yearlyPerformance a') = 2 \<and>
     yearlyPerformance a' ! 0 = perf_example ! 0 \<and>
     endValue (yearlyPerformance a' ! 1) = 1123 \<and>
     actualEndValue (yearlyPerformance a' ! 1) = Some 1200 \<and>
     actualTotalDividends (yearlyPerformance a' ! 1) = Some 0"
proof -
  have h: "[''a1'' \<mapsto> asset_example] ''a1'' = Some asset_example" by simp
  from reconciliation_isolation [of "[''a1'' \<mapsto> asset_example]" "''a1''" asset_example 2025
      "\<lparr>ad_endValue = Some 1200, ad_capitalGains = Some 100,
        ad_dividends = Some [], ad_totalDividends = Some 0\<rparr>", OF h]
  show ?thesis
    by (simp add: updateActualPerformance_def findIndex_def)
qed

section \<open>Properties of updateAsset\<close>

lemma updateAsset_recompute:
  assumes "store i = Some a" and "affects_valuation data"
    and "initializeYearlyPerformance tz (startDate (merge_asset a data))
           (maturityDate (merge_asset a data)) (initialAmount (merge_asset a data))
           (returns (merge_asset a data)) = Inr perf"
  shows "updateAsset tz store i data =
           Inr (store(i \<mapsto> (merge_asset a data)\<lparr>yearlyPerformance := perf\<rparr>))"
  using assms by (simp add: updateAsset_def Let_def)

lemma updateAsset_raises:
  assumes "store i = Some a" and "affects_valuation data"
    and "initializeYearlyPerformance tz (startDate (merge_asset a data))
           (maturityDate (merge_asset a data)) (initialAmount (merge_asset a data))
           (returns (merge_asset a data)) = Inl e"
  shows "updateAsset tz store i data = Inl e"
  using assms by (simp add: updateAsset_def Let_def)

lemma updateAsset_keep:
  assumes "store i = Some a" and "\<not> affects_valuation data"
  shows "updateAsset tz store i data = Inr (store(i \<mapsto> merge_asset a data))"
  using assms by (simp add: updateAsset_def Let_def)

text \<open>
  Claim C7. Full re-projection on edit: every \<open>updateAsset\<close> whose payload edits the
  principal, the return model, the start date or the maturity date, removing the
  maturity date included, replaces the whole sequence by the projection of the merged
  fields. The code misses an edit: a payload that sets \<open>maturityDate\<close> to
  \<open>undefined\<close> removes the maturity date of the stored asset, yet fails the test
  \<open>data.maturityDate !== undefined\<close>, so the two records projected up to the old
  maturity year stay, where the projection of the merged fields has 51.
\<close>

theorem updateAsset_undefined_maturity_keeps_old_projection:
  "\<exists>store' a' perf.
     updateAsset 0 [''a1'' \<mapsto> asset_example] ''a1''
       (empty_patch\<lparr>p_maturityDate := SetUndefined\<rparr>) = Inr store' \<and>
     store' ''a1'' = Some a' \<and>
     maturityDate a' = None \<and>
     yearlyPerformance a' = perf_example \<and>
     initializeYearlyPerformance 0 (startDate a') (maturityDate a') (initialAmount a')
       (returns a') = Inr perf \<and>
     length perf = 51 \<and>
     yearlyPerformance a' \<noteq> perf"
proof -
  let ?data = "empty_patch\<lparr>p_maturityDate := SetUndefined\<rparr>"
  let ?a' = "merge_asset asset_example ?data"
  have h: "[''a1'' \<mapsto> asset_example] ''a1'' = Some asset_example" by simp
  have "\<not> affects_valuation ?data" by (simp add: affects_valuation_def)
  from updateAsset_keep [of "[''a1'' \<mapsto> asset_example]" "''a1''" asset_example ?data 0, OF h this]
  have upd: "updateAsset 0 [''a1'' \<mapsto> asset_example] ''a1'' ?data =
               Inr ([''a1'' \<mapsto> asset_example](''a1'' \<mapsto> ?a'))" .
  have a': "?a' = asset_example\<lparr>maturityDate := None\<rparr>"
    by (simp add: merge_asset_def merge_field_def)
  have "\<exists>perf. initializeYearlyPerformance 0 \<lparr>d_year = 2024, d_month = 1, d_day = 1\<rparr> None
           1000 rets_example = Inr perf \<and>
         int (length perf) =
           max 0 ((case None :: iso_date option of
                     Some m \<Rightarrow> js_getFullYear 0 m
                   | None \<Rightarrow> js_getFullYear 0 \<lparr>d_year = 2024, d_month = 1, d_day = 1\<rparr> + 50)
                  + 1 - js_getFullYear 0 \<lparr>d_year = 2024, d_month = 1, d_day = 1\<rparr>)"
    by (rule initializeYearlyPerformance_total) (simp_all add: js_getFullYear_def)
  then obtain perf where
    perf: "initializeYearlyPerformance 0 \<lparr>d_year = 2024, d_month = 1, d_day = 1\<rparr> None
             1000 rets_example = Inr perf"
    and len: "length perf = 51"
    by (auto simp: js_getFullYear_def)
  from len have "perf_example \<noteq> perf" by auto
  with upd a' perf len show ?thesis by simp
qed

text \<open>
  Removing the maturity date with \<open>null\<close> does pass the test: the stored sequence is
  then the projection of the merged fields, with 51 records.
\<close>

lemma updateAsset_null_maturity_recomputes:
  "\<exists>store' a'.
     updateAsset 0 [''a1'' \<mapsto> asset_example] ''a1''
       (empty_patch\<lparr>p_maturityDate := SetNull\<rparr>) = Inr store' \<and>
     store' ''a1'' = Some a' \<and>
     maturityDate a' = None \<and>
     initializeYearlyPerformance 0 (startDate a') (maturityDate a') (initialAmount a')
       (returns a') = Inr (yearlyPerformance a') \<and>
     length (yearlyPerformance a') = 51"
proof -
  let ?data = "empty_patch\<lparr>p_maturityDate := SetNull\<rparr>"
  have h: "[''a1'' \<mapsto> asset_example] ''a1'' = Some asset_example" by simp
  have av: "affects_valuation ?data" by (simp add: affects_valuation_def)
  have a': "merge_asset asset_example ?data = asset_example\<lparr>maturityDate := None\<rparr>"
    by (simp add: merge_asset_def merge_field_def)
  have "\<exists>perf. initializeYearlyPerformance 0 \<lparr>d_year = 2024, d_month = 1, d_day = 1\<rparr> None
           1000 rets_example = Inr perf \<and>
         int (length perf) =
           max 0 ((case None :: iso_date option of
                     Some m \<Rightarrow> js_getFullYear 0 m
                   | None \<Rightarrow> js_getFullYear 0 \<lparr>d_year = 2024, d_month = 1, d_day = 1\<rparr> + 50)
                  + 1 - js_getFullYear 0 \<lparr>d_year = 2024, d_month = 1, d_day = 1\<rparr>)"
    by (rule initializeYearlyPerformance_total) (simp_all add: js_getFullYear_def)
  then obtain perf where
    perf: "initializeYearlyPerformance 0 \<lparr>d_year = 2024, d_month = 1, d_day = 1\<rparr> None
             1000 rets_example = Inr perf"
    and len: "length perf = 51"
    by (auto simp: js_getFullYear_def)
  from perf have "initializeYearlyPerformance 0
      (startDate (merge_asset asset_example ?data))
      (maturityDate (merge_asset asset_example ?data))
      (initialAmount (merge_asset asset_example ?data))
      (returns (merge_asset asset_example ?data)) = Inr perf"
    unfolding a' by simp
  from updateAsset_recompute
    [of "[''a1'' \<mapsto> asset_example]" "''a1''" asset_example ?data 0 perf, OF h av this]
  show ?thesis using a' perf len by simp
qed

text \<open>
  The same defect as in claim C2 stops a second kind of edit: a payload whose return
  model has no income-gain settings makes the projection raise, and the store keeps the
  asset as it was.
\<close>

lemma updateAsset_returns_without_incomeGain_raises:
  "updateAsset tz [''a1'' \<mapsto> asset_example] ''a1''
     (empty_patch\<lparr>p_returns :=
        Some \<lparr>capitalGain = \<lparr>annualRate = 0.07, compoundingFrequency = ''monthly''\<rparr>,
              incomeGain = None\<rparr>\<rparr>) = Inl TypeError"
  by (simp add: updateAsset_def affects_valuation_def merge_asset_def merge_field_def
      initializeYearlyPerformance_def js_getFullYear_def calculateYearPerformance_def Let_def)

section \<open>Properties of the Monte Carlo simulator\<close>

lemma percentileIndex_bounds:
  assumes "1 \<le> len" "0 \<le> p" "p < 1"
  shows "0 \<le> percentileIndex len p" and "percentileIndex len p < int len"
proof -
  from assms have "0 \<le> real len * p" by simp
  then show "0 \<le> percentileIndex len p" by (simp add: percentileIndex_def)
  from assms have "real len * p < real len * 1"
    by (intro mult_strict_left_mono) auto
  then have "real len * p < of_int (int len)" by simp
  then show "percentileIndex len p < int len"
    unfolding percentileIndex_def by (simp only: floor_less_iff)
qed

text \<open>
  Claim C9. The percentile is read at the index \<open>floor(length * p)\<close> of the sorted
  final values, and nothing clamps the index. For a list of one or more values and every
  \<open>p\<close> from 0 up to, not including, 1 (so for 0.95, 0.5 and 0.05, and for their
  nearest floating-point numbers) the index lies between 0 and \<open>length - 1\<close>, and the
  read is in bounds. The index equals the length only for the empty list, where it
  is 0 and the read gives \<open>undefined\<close>.
\<close>

theorem percentile_index_in_bounds:
  "percentileIndex len p = \<lfloor>real len * p\<rfloor> \<and>
   (1 \<le> len \<and> 0 \<le> p \<and> p < 1 \<longrightarrow>
      0 \<le> percentileIndex len p \<and> percentileIndex len p < int len \<and>
      (length xs = len \<longrightarrow> getPercentile xs p = Some (xs ! nat (percentileIndex len p)))) \<and>
   percentileIndex 0 p = 0 \<and>
   getPercentile [] p = None"
  using percentileIndex_bounds [of len p]
  by (auto simp: getPercentile_def Let_def percentileIndex_def)

theorem percentile_index_in_bounds_witness:
  "percentileIndex 19 0.95 = 18 \<and> getPercentile [10, 20, 30] 0.95 = Some 30 \<and>
   getPercentile [10, 20, 30] 0.05 = Some 10"
  using percentile_index_in_bounds [of 19 "0.95" "[]"]
    percentile_index_in_bounds [of 3 "0.95" "[10, 20, 30]"]
    percentile_index_in_bounds [of 3 "0.05" "[10, 20, 30]"]
  by (simp add: percentileIndex_def)

text \<open>
  The index never equals the length of a list that has an element.
\<close>

theorem percentile_index_never_length:
  "\<not> (\<exists>len \<ge> 1. \<exists>p \<in> {0.95, 0.5, 0.05}. percentileIndex len p = int len)"
proof
  assume "\<exists>len \<ge> 1. \<exists>p \<in> {0.95, 0.5, 0.05 :: real}. percentileIndex len p = int len"
  then obtain len p where h: "1 \<le> len" "p \<in> {0.95, 0.5, 0.05 :: real}"
    "percentileIndex len p = int len" by blast
  from h(2) have "0 \<le> p" "p < 1" by auto
  from percentileIndex_bounds(2) [OF h(1) this] h(3) show False by simp
qed

lemma simulatePath_no_years:
  "years \<le> 0 \<Longrightarrow> simulatePath rnd rate vol years 1 val path k = Some (path, k)"
  by simp

lemma simulatePaths_no_years:
  "years \<le> 0 \<Longrightarrow>
     simulatePaths rnd amt rate vol years iterations i results k =
       Some (results @ replicate (nat (iterations - i)) [amt], k)"
proof (induction "nat (iterations - i)" arbitrary: i results)
  case 0
  then show ?case by simp
next
  case (Suc n)
  then have lt: "i < iterations" by simp
  from Suc have "n = nat (iterations - (i + 1))" by simp
  from Suc.hyps(1) [OF this Suc.prems]
  have "simulatePaths rnd amt rate vol years iterations (i + 1) (results @ [[amt]]) k =
          Some ((results @ [[amt]]) @ replicate n [amt], k)"
    using \<open>n = nat (iterations - (i + 1))\<close> by simp
  moreover from Suc.hyps(2) have "nat (iterations - i) = Suc n" by simp
  ultimately show ?case
    using lt Suc.prems by (simp add: replicate_app_Cons_same)
qed

lemma simulatePaths_no_iterations:
  "iterations \<le> 0 \<Longrightarrow>
     simulatePaths rnd amt rate vol years iterations 0 [] k = Some ([], k)"
  by simp

lemma sort_replicate: "sort (replicate n (v :: real)) = replicate n v"
  by (induction n) (auto simp: insort_is_Cons)

lemma getPercentile_replicate:
  assumes "1 \<le> n" "0 \<le> p" "p < 1"
  shows "getPercentile (replicate n v) p = Some v"
  using percentileIndex_bounds [OF assms]
  by (simp add: getPercentile_def Let_def nat_less_iff)

text \<open>
  Claim C8. A request with \<open>years \<le> 0\<close> or \<open>iterations \<le> 0\<close> is to fail with an
  InvalidParameterError. The simulator has no such check and raises nothing: for a stored
  asset it returns a simulation result without a single draw. With
  \<open>iterations \<le> 0\<close> the result has no path and its three percentiles are
  \<open>undefined\<close>; with \<open>years \<le> 0\<close> and one or more iterations every path holds the
  principal alone and the three percentiles are the principal.
\<close>

theorem monteCarlo_nonpositive_parameters:
  assumes "store assetId = Some a"
  shows "(iterations \<le> 0 \<longrightarrow>
            runMonteCarloSimulation store rnd k assetId years (Some iterations) =
              Some (Some \<lparr>bestCase = None, expected = None, worstCase = None, paths = []\<rparr>,
                    store, k)) \<and>
         (years \<le> 0 \<and> 0 < iterations \<longrightarrow>
            runMonteCarloSimulation store rnd k assetId years (Some iterations) =
              Some (Some \<lparr>bestCase = Some (initialAmount a),
                           expected = Some (initialAmount a),
                           worstCase = Some (initialAmount a),
                           paths = replicate (nat iterations) [initialAmount a]\<rparr>,
                    store, k)) \<and>
         (years \<le> 0 \<longrightarrow>
            runMonteCarloSimulation store rnd k assetId years None =
              Some (Some \<lparr>bestCase = Some (initialAmount a),
                           expected = Some (initialAmount a),
                           worstCase = Some (initialAmount a),
                           paths = replicate 1000 [initialAmount a]\<rparr>,
                    store, k))"
proof -
  have pos: "getPercentile (replicate (nat n) (initialAmount a)) p = Some (initialAmount a)"
    if "0 < n" "p \<in> {0.95, 0.5, 0.05}" for n :: int and p :: real
    using that by (intro getPercentile_replicate) auto
  have run: "runMonteCarloSimulation store rnd k assetId years it =
               Some (Some \<lparr>bestCase = Some (initialAmount a),
                            expected = Some (initialAmount a),
                            worstCase = Some (initialAmount a),
                            paths = replicate (nat n) [initialAmount a]\<rparr>,
                     store, k)"
    if "years \<le> 0" "0 < n" "n = (case it of None \<Rightarrow> 1000 | Some m \<Rightarrow> m)"
    for n :: int and it :: "int option"
    using that assms pos [of n]
    by (simp add: runMonteCarloSimulation_def simulatePaths_no_years sort_replicate
        del: simulatePaths.simps)
  have none: "runMonteCarloSimulation store rnd k assetId years (Some iterations) =
              Some (Some \<lparr>bestCase = None, expected = None, worstCase = None, paths = []\<rparr>,
                    store, k)"
    if "iterations \<le> 0"
    using that assms
    by (simp add: runMonteCarloSimulation_def getPercentile_def percentileIndex_def)
  from run [of iterations "Some iterations"] run [of 1000 None] none
  show ?thesis by simp
qed

theorem monteCarlo_nonpositive_parameters_witness:
  "runMonteCarloSimulation [''a1'' \<mapsto> asset_example] (\<lambda>n. 1 / 2) 0 ''a1'' (- 1) (Some 3) =
     Some (Some \<lparr>bestCase = Some 1000, expected = Some 1000, worstCase = Some 1000,
                  paths = [[1000], [1000], [1000]]\<rparr>,
           [''a1'' \<mapsto> asset_example], 0)"
proof -
  have h: "[''a1'' \<mapsto> asset_example] ''a1'' = Some asset_example" by simp
  from monteCarlo_nonpositive_parameters
    [of "[''a1'' \<mapsto> asset_example]" "''a1''" asset_example 3 "\<lambda>n. 1 / 2" 0 "- 1", OF h]
  show ?thesis by (simp add: numeral_3_eq_3)
qed

theorem monteCarlo_nonpositive_parameters_accepted:
  "runMonteCarloSimulation [''a1'' \<mapsto> asset_example] (\<lambda>n. 1 / 2) 0 ''a1'' 0 (Some 2) =
     Some (Some \<lparr>bestCase = Some 1000, expected = Some 1000, worstCase = Some 1000,
                  paths = [[1000], [1000]]\<rparr>,
           [''a1'' \<mapsto> asset_example], 0) \<and>
   runMonteCarloSimulation [''a1'' \<mapsto> asset_example] (\<lambda>n. 1 / 2) 0 ''a1'' 10 (Some 0) =
     Some (Some \<lparr>bestCase = None, expected = None, worstCase = None, paths = []\<rparr>,
           [''a1'' \<mapsto> asset_example], 0)"
  by (simp add: runMonteCarloSimulation_def getPercentile_def percentileIndex_def)

text \<open>
  Claim C10. For an id that is not in the store, \<open>runMonteCarloSimulation\<close> returns
  \<open>null\<close>: no simulation result, no exception, no draw from the random source, and
  the store as it was.
\<close>

theorem monteCarlo_unknown_asset:
  "store assetId = None \<Longrightarrow>
     runMonteCarloSimulation store rnd k assetId years iterations = Some (None, store, k)"
  by (simp add: runMonteCarloSimulation_def)

theorem monteCarlo_unknown_asset_witness:
  "runMonteCarloSimulation Map.empty (\<lambda>n. 1 / 2) 0 ''a1'' 10 None = Some (None, Map.empty, 0)"
  using monteCarlo_unknown_asset [of Map.empty "''a1''" "\<lambda>n. 1 / 2" 0 10 None] by simp

end
